theory Spec2Isabelle
  imports Main
begin

section \<open>The workflow loader of \<^verbatim>\<open>useLoadWorkflow.ts\<close>\<close>

text \<open>
  The hook \<^verbatim>\<open>useLoadWorkflow\<close> returns the function \<^verbatim>\<open>loadWorkflow\<close>, a thin
  orchestrator: it selects the workflow or the graph string of a response, parses it,
  converts a graph, validates the document, and reports the outcome through the
  application's collaborators (two atoms, the store's dispatch, the toaster, the logger).

  The collaborators are imported from modules that are not part of the sources at hand.
  The pure ones (\<^verbatim>\<open>JSON.parse\<close>, \<^verbatim>\<open>graphToWorkflow\<close>, \<^verbatim>\<open>validateWorkflow\<close>, the access
  checks, the translator \<^verbatim>\<open>t\<close>, \<^verbatim>\<open>fromZodError\<close>) are parameters of the model, gathered in
  a record. The effectful ones (\<^verbatim>\<open>$nodeExecutionStates.set\<close>, \<^verbatim>\<open>dispatch\<close>, \<^verbatim>\<open>toast\<close>,
  \<^verbatim>\<open>log.warn\<close>, \<^verbatim>\<open>log.error\<close>, \<^verbatim>\<open>$needsFit.set\<close>) update an explicit world: they
  record the call, in program order. In \<open>loadWorkflow\<close> they are total and never raise;
  \<open>loadWorkflow_raising\<close> is the same function with collaborators that may raise inside
  the \<^verbatim>\<open>try\<close> block. \<^verbatim>\<open>await\<close> is sequential composition.
\<close>

subsection \<open>Data\<close>

text \<open>
  \<^verbatim>\<open>GraphAndWorkflowResponse\<close>: the two fields the loader reads. Each is a string or
  absent (\<^verbatim>\<open>null\<close>).
\<close>

record GraphAndWorkflowResponse =
  workflow :: "string option"
  graph :: "string option"

text \<open>
  The conditions \<^verbatim>\<open>if (data.workflow)\<close> and \<^verbatim>\<open>else if (data.graph)\<close> test JavaScript
  truthiness: \<^verbatim>\<open>null\<close> and the empty string are falsy, every other string is truthy.
\<close>

definition truthy :: "string option \<Rightarrow> bool" where
  "truthy v = (case v of None \<Rightarrow> False | Some s \<Rightarrow> s \<noteq> [])"

text \<open>
  What the \<^verbatim>\<open>try\<close> block can raise, by class: the two workflow errors with their message,
  a \<^verbatim>\<open>z.ZodError\<close> with its content, the \<^verbatim>\<open>SyntaxError\<close> of \<^verbatim>\<open>JSON.parse\<close> with its
  message, and \<^verbatim>\<open>Error\<close> for a plain error (or any other value that is an instance of
  none of the three classes the \<^verbatim>\<open>catch\<close> block tests).
\<close>

datatype 'z js_error =
    WorkflowVersionError string
  | WorkflowMigrationError string
  | ZodError 'z
  | SyntaxError string
  | Error string

text \<open>A validation warning \<^verbatim>\<open>{ message, ...rest }\<close> and the validator's result.\<close>

record 'c warning =
  message :: string
  rest :: 'c

record ('w, 'c) validation_result =
  validated_workflow :: 'w
  warnings :: "'c warning list"

text \<open>The argument of \<^verbatim>\<open>toast\<close>; a toast without description has \<open>None\<close> there.\<close>

record toast_options =
  toast_id :: string
  title :: string
  status :: string
  description :: "string option"

subsection \<open>The collaborators\<close>

text \<open>
  The pure collaborators. \<^verbatim>\<open>JSON.parse\<close> returns the parsed value or the message of its
  \<^verbatim>\<open>SyntaxError\<close>. \<^verbatim>\<open>graphToWorkflow\<close> returns a workflow that is handed on as untyped
  data, so its result has the type of parsed values. \<open>i18n_t\<close> is the translator \<^verbatim>\<open>t\<close>;
  \<open>fromZodError\<close> takes the error content and the prefix and returns the message.
\<close>

record ('j, 't, 'w, 'c, 'z) collaborators =
  JSON_parse :: "string \<Rightarrow> string + 'j"
  graphToWorkflow :: "'j \<Rightarrow> bool \<Rightarrow> 'z js_error + 'j"
  validateWorkflow :: "'j \<Rightarrow> 't \<Rightarrow> (string \<Rightarrow> bool) \<Rightarrow> (string \<Rightarrow> bool) \<Rightarrow> (string \<Rightarrow> bool)
                       \<Rightarrow> 'z js_error + ('w, 'c) validation_result"
  checkImageAccess :: "string \<Rightarrow> bool"
  checkBoardAccess :: "string \<Rightarrow> bool"
  checkModelAccess :: "string \<Rightarrow> bool"
  i18n_t :: "string \<Rightarrow> string"
  fromZodError :: "'z \<Rightarrow> string \<Rightarrow> string"

text \<open>
  The calls made to the effectful collaborators. \<open>Log_error e m\<close> is
  \<^verbatim>\<open>log.error({ error: serializeError(e) }, m)\<close>: the serialised error is a function of
  \<open>e\<close>, which the entry keeps as it is.
\<close>

datatype ('x, 'w, 'c, 'z) call =
    NodeExecutionStates_set "string \<rightharpoonup> 'x"
  | Dispatch_workflowLoaded 'w
  | Toast toast_options
  | Log_warn 'c string
  | Log_error "'z js_error" string
  | NeedsFit_set bool

text \<open>
  The world: the atoms \<^verbatim>\<open>$templates\<close>, \<^verbatim>\<open>$nodeExecutionStates\<close> and \<^verbatim>\<open>$needsFit\<close>, and
  every call made so far, oldest first.
\<close>

record ('t, 'x, 'w, 'c, 'z) world =
  templates :: 't
  nodeExecutionStates :: "string \<rightharpoonup> 'x"
  needsFit :: bool
  calls :: "('x, 'w, 'c, 'z) call list"

definition nodeExecutionStates_set ::
  "(string \<rightharpoonup> 'x) \<Rightarrow> ('t, 'x, 'w, 'c, 'z) world \<Rightarrow> ('t, 'x, 'w, 'c, 'z) world" where
  "nodeExecutionStates_set v s =
     s\<lparr>nodeExecutionStates := v, calls := calls s @ [NodeExecutionStates_set v]\<rparr>"

definition dispatch_workflowLoaded ::
  "'w \<Rightarrow> ('t, 'x, 'w, 'c, 'z) world \<Rightarrow> ('t, 'x, 'w, 'c, 'z) world" where
  "dispatch_workflowLoaded w s = s\<lparr>calls := calls s @ [Dispatch_workflowLoaded w]\<rparr>"

definition toast ::
  "toast_options \<Rightarrow> ('t, 'x, 'w, 'c, 'z) world \<Rightarrow> ('t, 'x, 'w, 'c, 'z) world" where
  "toast opts s = s\<lparr>calls := calls s @ [Toast opts]\<rparr>"

definition log_warn ::
  "'c \<Rightarrow> string \<Rightarrow> ('t, 'x, 'w, 'c, 'z) world \<Rightarrow> ('t, 'x, 'w, 'c, 'z) world" where
  "log_warn ctx m s = s\<lparr>calls := calls s @ [Log_warn ctx m]\<rparr>"

definition log_error ::
  "'z js_error \<Rightarrow> string \<Rightarrow> ('t, 'x, 'w, 'c, 'z) world \<Rightarrow> ('t, 'x, 'w, 'c, 'z) world" where
  "log_error e m s = s\<lparr>calls := calls s @ [Log_error e m]\<rparr>"

definition needsFit_set ::
  "bool \<Rightarrow> ('t, 'x, 'w, 'c, 'z) world \<Rightarrow> ('t, 'x, 'w, 'c, 'z) world" where
  "needsFit_set b s = s\<lparr>needsFit := b, calls := calls s @ [NeedsFit_set b]\<rparr>"

subsection \<open>\<^verbatim>\<open>getWorkflowFromStringifiedWorkflowOrGraph\<close>\<close>

text \<open>
  Lines 23 to 42. The workflow string is preferred; the graph string is the fallback and
  is converted with \<^verbatim>\<open>graphToWorkflow(parsed, true)\<close>; with neither, a plain \<^verbatim>\<open>Error\<close> is
  thrown. An exception of a callee leaves the function as it is.
\<close>

definition getWorkflowFromStringifiedWorkflowOrGraph ::
  "('j, 't, 'w, 'c, 'z) collaborators \<Rightarrow> GraphAndWorkflowResponse \<Rightarrow> 't
     \<Rightarrow> 'z js_error + ('w, 'c) validation_result" where
  "getWorkflowFromStringifiedWorkflowOrGraph env data tpls =
     (if truthy (workflow data) then
        (case JSON_parse env (the (workflow data)) of
           Inl m \<Rightarrow> Inl (SyntaxError m)
         | Inr parsed \<Rightarrow>
             validateWorkflow env parsed tpls
               (checkImageAccess env) (checkBoardAccess env) (checkModelAccess env))
      else if truthy (graph data) then
        (case JSON_parse env (the (graph data)) of
           Inl m \<Rightarrow> Inl (SyntaxError m)
         | Inr parsed \<Rightarrow>
             (case graphToWorkflow env parsed True of
                Inl e \<Rightarrow> Inl e
              | Inr converted \<Rightarrow>
                  validateWorkflow env converted tpls
                    (checkImageAccess env) (checkBoardAccess env) (checkModelAccess env)))
      else Inl (Error ''No workflow or graph provided''))"

subsection \<open>\<^verbatim>\<open>loadWorkflow\<close>\<close>

text \<open>The \<^verbatim>\<open>catch\<close> block, lines 75 to 117: an \<^verbatim>\<open>instanceof\<close> chain with a last \<^verbatim>\<open>else\<close>.\<close>

definition unable_toast :: "('j, 't, 'w, 'c, 'z) collaborators \<Rightarrow> string \<Rightarrow> toast_options" where
  "unable_toast env d =
     \<lparr>toast_id = ''UNABLE_TO_VALIDATE_WORKFLOW'',
      title = i18n_t env ''nodes.unableToValidateWorkflow'',
      status = ''error'',
      description = Some d\<rparr>"

definition loadWorkflow_catch ::
  "('j, 't, 'w, 'c, 'z) collaborators \<Rightarrow> 'z js_error
     \<Rightarrow> ('t, 'x, 'w, 'c, 'z) world \<Rightarrow> ('t, 'x, 'w, 'c, 'z) world" where
  "loadWorkflow_catch env e s =
     (case e of
        WorkflowVersionError m \<Rightarrow> toast (unable_toast env m) (log_error e m s)
      | WorkflowMigrationError m \<Rightarrow> toast (unable_toast env m) (log_error e m s)
      | ZodError z \<Rightarrow>
          (let m = fromZodError env z (i18n_t env ''nodes.workflowValidation'')
           in toast (unable_toast env m) (log_error e m s))
      | _ \<Rightarrow>
          toast (unable_toast env (i18n_t env ''nodes.unknownErrorValidatingWorkflow''))
            (log_error e (i18n_t env ''nodes.unknownErrorValidatingWorkflow'') s))"

text \<open>The two toasts of the \<^verbatim>\<open>try\<close> block, lines 56 to 66.\<close>

definition loaded_toast :: "('j, 't, 'w, 'c, 'z) collaborators \<Rightarrow> toast_options" where
  "loaded_toast env =
     \<lparr>toast_id = ''WORKFLOW_LOADED'',
      title = i18n_t env ''toast.workflowLoaded'',
      status = ''success'',
      description = None\<rparr>"

definition loadedWithWarnings_toast :: "('j, 't, 'w, 'c, 'z) collaborators \<Rightarrow> toast_options" where
  "loadedWithWarnings_toast env =
     \<lparr>toast_id = ''WORKFLOW_LOADED'',
      title = i18n_t env ''toast.loadedWithWarnings'',
      status = ''warning'',
      description = None\<rparr>"

text \<open>\<^verbatim>\<open>warnings.forEach(({ message, ...rest }) => log.warn(rest, message))\<close>, lines 68 to 70.\<close>

fun warnings_forEach ::
  "'c warning list \<Rightarrow> ('t, 'x, 'w, 'c, 'z) world \<Rightarrow> ('t, 'x, 'w, 'c, 'z) world" where
  "warnings_forEach [] s = s"
| "warnings_forEach (w # ws) s = warnings_forEach ws (log_warn (rest w) (message w) s)"

text \<open>
  Lines 48 to 118. The result is the returned value, \<open>None\<close> for \<^verbatim>\<open>null\<close>, and the world
  after the call.
\<close>

definition loadWorkflow ::
  "('j, 't, 'w, 'c, 'z) collaborators \<Rightarrow> GraphAndWorkflowResponse
     \<Rightarrow> ('t, 'x, 'w, 'c, 'z) world \<Rightarrow> 'w option \<times> ('t, 'x, 'w, 'c, 'z) world" where
  "loadWorkflow env data s =
     (case getWorkflowFromStringifiedWorkflowOrGraph env data (templates s) of
        Inr r \<Rightarrow>
          (let s1 = nodeExecutionStates_set Map.empty s;
               s2 = dispatch_workflowLoaded (validated_workflow r) s1;
               s3 = (if warnings r = [] then toast (loaded_toast env) s2
                     else warnings_forEach (warnings r)
                            (toast (loadedWithWarnings_toast env) s2));
               s4 = needsFit_set True s3
           in (Some (validated_workflow r), s4))
      | Inl e \<Rightarrow> (None, loadWorkflow_catch env e s))"

subsection \<open>\<^verbatim>\<open>loadWorkflow\<close> with collaborators that raise\<close>

text \<open>
  Lines 53 to 73 are inside the \<^verbatim>\<open>try\<close> block, so an exception of
  \<^verbatim>\<open>$nodeExecutionStates.set\<close>, \<^verbatim>\<open>dispatch\<close>, \<^verbatim>\<open>toast\<close>, \<^verbatim>\<open>log.warn\<close> or \<^verbatim>\<open>$needsFit.set\<close>
  reaches the same \<^verbatim>\<open>catch\<close> block as an exception of line 51, after the calls made
  before it. The parameter \<open>raises\<close> tells, for a call, whether the collaborator raises
  and what. A call that raises has no effect on the world and ends the \<^verbatim>\<open>try\<close> block.
\<close>

fun apply_call ::
  "('x, 'w, 'c, 'z) call \<Rightarrow> ('t, 'x, 'w, 'c, 'z) world \<Rightarrow> ('t, 'x, 'w, 'c, 'z) world" where
  "apply_call (NodeExecutionStates_set v) s = nodeExecutionStates_set v s"
| "apply_call (Dispatch_workflowLoaded w) s = dispatch_workflowLoaded w s"
| "apply_call (Toast opts) s = toast opts s"
| "apply_call (Log_warn ctx m) s = log_warn ctx m s"
| "apply_call (Log_error e m) s = log_error e m s"
| "apply_call (NeedsFit_set b) s = needsFit_set b s"

definition attempt ::
  "(('x, 'w, 'c, 'z) call \<Rightarrow> 'z js_error option) \<Rightarrow> ('x, 'w, 'c, 'z) call
     \<Rightarrow> ('t, 'x, 'w, 'c, 'z) world \<Rightarrow> 'z js_error option \<times> ('t, 'x, 'w, 'c, 'z) world" where
  "attempt raises c s =
     (case raises c of Some e \<Rightarrow> (Some e, s) | None \<Rightarrow> (None, apply_call c s))"

text \<open>One statement after another: the second runs when the first has not raised.\<close>

definition and_then ::
  "'e option \<times> 's \<Rightarrow> ('s \<Rightarrow> 'e option \<times> 's) \<Rightarrow> 'e option \<times> 's" where
  "and_then r f = (case fst r of Some e \<Rightarrow> r | None \<Rightarrow> f (snd r))"

fun warnings_forEach_raising ::
  "(('x, 'w, 'c, 'z) call \<Rightarrow> 'z js_error option) \<Rightarrow> 'c warning list
     \<Rightarrow> ('t, 'x, 'w, 'c, 'z) world \<Rightarrow> 'z js_error option \<times> ('t, 'x, 'w, 'c, 'z) world" where
  "warnings_forEach_raising raises [] s = (None, s)"
| "warnings_forEach_raising raises (w # ws) s =
     and_then (attempt raises (Log_warn (rest w) (message w)) s)
       (warnings_forEach_raising raises ws)"

text \<open>Lines 53 to 73: the error raised, if any, and the world where the block ends.\<close>

definition loadWorkflow_try_effects ::
  "(('x, 'w, 'c, 'z) call \<Rightarrow> 'z js_error option) \<Rightarrow> ('j, 't, 'w, 'c, 'z) collaborators
     \<Rightarrow> ('w, 'c) validation_result \<Rightarrow> ('t, 'x, 'w, 'c, 'z) world
     \<Rightarrow> 'z js_error option \<times> ('t, 'x, 'w, 'c, 'z) world" where
  "loadWorkflow_try_effects raises env r s =
     and_then
       (and_then
          (and_then (attempt raises (NodeExecutionStates_set Map.empty) s)
             (attempt raises (Dispatch_workflowLoaded (validated_workflow r))))
          (\<lambda>s2. if warnings r = [] then attempt raises (Toast (loaded_toast env)) s2
                else and_then (attempt raises (Toast (loadedWithWarnings_toast env)) s2)
                       (warnings_forEach_raising raises (warnings r))))
       (attempt raises (NeedsFit_set True))"

text \<open>
  Lines 48 to 118 again. The calls of the \<^verbatim>\<open>catch\<close> block stay total, as in
  \<open>loadWorkflow\<close>.
\<close>

definition loadWorkflow_raising ::
  "(('x, 'w, 'c, 'z) call \<Rightarrow> 'z js_error option) \<Rightarrow> ('j, 't, 'w, 'c, 'z) collaborators
     \<Rightarrow> GraphAndWorkflowResponse \<Rightarrow> ('t, 'x, 'w, 'c, 'z) world
     \<Rightarrow> 'w option \<times> ('t, 'x, 'w, 'c, 'z) world" where
  "loadWorkflow_raising raises env data s =
     (case getWorkflowFromStringifiedWorkflowOrGraph env data (templates s) of
        Inr r \<Rightarrow>
          (case loadWorkflow_try_effects raises env r s of
             (None, s') \<Rightarrow> (Some (validated_workflow r), s')
           | (Some e, s') \<Rightarrow> (None, loadWorkflow_catch env e s'))
      | Inl e \<Rightarrow> (None, loadWorkflow_catch env e s))"

text \<open>
  The calls one run adds to the world, and the toasts among a list of calls. Both serve
  to state properties; the loader does not use them.
\<close>

definition emitted ::
  "('t, 'x, 'w, 'c, 'z) world \<Rightarrow> ('t, 'x, 'w, 'c, 'z) world \<Rightarrow> ('x, 'w, 'c, 'z) call list" where
  "emitted s s' = drop (length (calls s)) (calls s')"

fun toasts_of :: "('x, 'w, 'c, 'z) call list \<Rightarrow> toast_options list" where
  "toasts_of [] = []"
| "toasts_of (Toast opts # cs) = opts # toasts_of cs"
| "toasts_of (_ # cs) = toasts_of cs"

fun dispatched_of :: "('x, 'w, 'c, 'z) call list \<Rightarrow> 'w list" where
  "dispatched_of [] = []"
| "dispatched_of (Dispatch_workflowLoaded w # cs) = w # dispatched_of cs"
| "dispatched_of (_ # cs) = dispatched_of cs"

fun warned_of :: "('x, 'w, 'c, 'z) call list \<Rightarrow> ('c \<times> string) list" where
  "warned_of [] = []"
| "warned_of (Log_warn ctx m # cs) = (ctx, m) # warned_of cs"
| "warned_of (_ # cs) = warned_of cs"

text \<open>
  The document that reaches \<^verbatim>\<open>validateWorkflow\<close>, when one does: the parsed workflow
  string, or the parsed and converted graph string.
\<close>

definition document_for_validation ::
  "('j, 't, 'w, 'c, 'z) collaborators \<Rightarrow> GraphAndWorkflowResponse \<Rightarrow> 'j option" where
  "document_for_validation env data =
     (if truthy (workflow data) then
        (case JSON_parse env (the (workflow data)) of Inl m \<Rightarrow> None | Inr parsed \<Rightarrow> Some parsed)
      else if truthy (graph data) then
        (case JSON_parse env (the (graph data)) of
           Inl m \<Rightarrow> None
         | Inr parsed \<Rightarrow>
             (case graphToWorkflow env parsed True of Inl e \<Rightarrow> None | Inr converted \<Rightarrow> Some converted))
      else None)"

subsection \<open>The version phase of the validator\<close>

text \<open>
  Modelled from the spec: the version phase of \<^verbatim>\<open>validateWorkflow\<close>, whose module
  (\<^verbatim>\<open>features/nodes/util/workflow/validateWorkflow\<close>, with the migrations it runs) is
  imported by the loader and is not among the sources. Section 4.3 of the specification:
  the state is the declared version of the document; while it is not the latest, the
  migration step registered for it is applied and the state advances; a starting version
  that is not recognised fails with \<^verbatim>\<open>WorkflowVersionError\<close>; a recognised version that
  cannot be brought to the latest (no step registered, or a step that cannot be applied)
  fails with \<^verbatim>\<open>WorkflowMigrationError\<close>. Following Section 9, the chain is the ordered
  list of the recognised versions, oldest first and the latest last, each with the step
  registered for it. The messages are the ones of the table of Section 7. What happens
  once the document is at the latest version (schema, cross references, access checks) is
  the parameter \<open>validate_latest\<close>.
\<close>

record ('j, 't, 'w, 'c, 'z) validator =
  declared_version :: "'j \<Rightarrow> string"
  migration_chain :: "(string \<times> ('j \<Rightarrow> 'j option) option) list"
  validate_latest :: "'j \<Rightarrow> 't \<Rightarrow> (string \<Rightarrow> bool) \<Rightarrow> (string \<Rightarrow> bool) \<Rightarrow> (string \<Rightarrow> bool)
                       \<Rightarrow> 'z js_error + ('w, 'c) validation_result"

text \<open>
  Modelled from the spec: the recognised set of versions (Section 7), the versions of
  the chain.
\<close>

definition recognized :: "('j, 't, 'w, 'c, 'z) validator \<Rightarrow> string list" where
  "recognized vd = map fst (migration_chain vd)"

text \<open>
  Modelled from the spec: the walk of Section 4.3 from one state of the chain to the
  latest version. The last entry of the chain is the latest version, where the walk ends;
  at an earlier entry the registered step is applied and the walk goes on with the next
  entry; it fails (\<open>None\<close>) where no step is registered or the step cannot be applied.
\<close>

fun migrate :: "(string \<times> ('j \<Rightarrow> 'j option) option) list \<Rightarrow> 'j \<Rightarrow> 'j option" where
  "migrate [] doc = None"
| "migrate [(v, step)] doc = Some doc"
| "migrate ((v, None) # later) doc = None"
| "migrate ((v, Some f) # later) doc =
     (case f doc of None \<Rightarrow> None | Some doc' \<Rightarrow> migrate later doc')"

text \<open>
  Modelled from the spec: the part of the chain that starts at the declared version.
\<close>

definition chain_from ::
  "('j, 't, 'w, 'c, 'z) validator \<Rightarrow> string \<Rightarrow> (string \<times> ('j \<Rightarrow> 'j option) option) list" where
  "chain_from vd v = dropWhile (\<lambda>entry. fst entry \<noteq> v) (migration_chain vd)"

text \<open>
  Modelled from the spec: \<^verbatim>\<open>validateWorkflow\<close> as Section 4.3 describes it, with the two
  failures of the version phase and their messages (Section 7: version not recognized,
  migration failed).
\<close>

definition spec_validateWorkflow ::
  "('j, 't, 'w, 'c, 'z) validator \<Rightarrow> 'j \<Rightarrow> 't \<Rightarrow> (string \<Rightarrow> bool) \<Rightarrow> (string \<Rightarrow> bool)
     \<Rightarrow> (string \<Rightarrow> bool) \<Rightarrow> 'z js_error + ('w, 'c) validation_result" where
  "spec_validateWorkflow vd doc tpls ci cb cm =
     (if declared_version vd doc \<notin> set (recognized vd)
      then Inl (WorkflowVersionError ''version not recognized'')
      else (case migrate (chain_from vd (declared_version vd doc)) doc of
              None \<Rightarrow> Inl (WorkflowMigrationError ''migration failed'')
            | Some doc' \<Rightarrow> validate_latest vd doc' tpls ci cb cm))"

subsection \<open>A concrete installation\<close>

text \<open>
  A small installation on which the properties below are exercised. A document is a
  version with the names of its nodes. The parser knows six strings; the converter stamps
  the latest version and, with layout, appends a layout node; the chain recognises four
  versions, of which \<open>0.1\<close> has no step registered; at the latest version an empty
  document is a schema violation and every node that fails the image check is a warning.
\<close>

type_synonym demo_doc = "string \<times> string list"

definition demo_parse :: "string \<Rightarrow> string + demo_doc" where
  "demo_parse s =
     (if s = ''{0}'' then Inr (''0.1'', [''a''])
      else if s = ''{1}'' then Inr (''1.0.0'', [''a''])
      else if s = ''{3}'' then Inr (''3.0.0'', [''a''])
      else if s = ''{3i}'' then Inr (''3.0.0'', [''a'', ''img''])
      else if s = ''{3e}'' then Inr (''3.0.0'', [])
      else if s = ''{9}'' then Inr (''9.9.9'', [''a''])
      else if s = ''{g}'' then Inr ([], [''a''])
      else Inl ''Unexpected token'')"

definition demo_graphToWorkflow :: "demo_doc \<Rightarrow> bool \<Rightarrow> string js_error + demo_doc" where
  "demo_graphToWorkflow g doLayout =
     Inr (''3.0.0'', if doLayout then snd g @ [''layout''] else snd g)"

definition demo_validate_latest ::
  "demo_doc \<Rightarrow> unit \<Rightarrow> (string \<Rightarrow> bool) \<Rightarrow> (string \<Rightarrow> bool) \<Rightarrow> (string \<Rightarrow> bool)
     \<Rightarrow> string js_error + (demo_doc, string) validation_result" where
  "demo_validate_latest doc tpls ci cb cm =
     (if snd doc = [] then Inl (ZodError ''nodes: expected a node'')
      else Inr \<lparr>validated_workflow = doc,
                warnings = map (\<lambda>n. \<lparr>message = ''not accessible'', rest = n\<rparr>)
                             (filter (\<lambda>n. \<not> ci n) (snd doc))\<rparr>)"

definition demo_validator :: "(demo_doc, unit, demo_doc, string, string) validator" where
  "demo_validator =
     \<lparr>declared_version = fst,
      migration_chain =
        [(''0.1'', None),
         (''1.0.0'', Some (\<lambda>doc. Some (''2.0.0'', snd doc))),
         (''2.0.0'', Some (\<lambda>doc. Some (''3.0.0'', snd doc))),
         (''3.0.0'', None)],
      validate_latest = demo_validate_latest\<rparr>"

definition demo_env :: "(demo_doc, unit, demo_doc, string, string) collaborators" where
  "demo_env =
     \<lparr>JSON_parse = demo_parse,
      graphToWorkflow = demo_graphToWorkflow,
      validateWorkflow = spec_validateWorkflow demo_validator,
      checkImageAccess = (\<lambda>n. n \<noteq> ''img''),
      checkBoardAccess = (\<lambda>n. True),
      checkModelAccess = (\<lambda>n. True),
      i18n_t = (\<lambda>key. ''t:'' @ key),
      fromZodError = (\<lambda>z prefix. prefix @ '': '' @ z)\<rparr>"

text \<open>The same installation with a validator that raises a plain error.\<close>

definition boom_env :: "(demo_doc, unit, demo_doc, string, string) collaborators" where
  "boom_env = demo_env\<lparr>validateWorkflow := (\<lambda>doc tpls ci cb cm. Inl (Error ''boom''))\<rparr>"

text \<open>A store whose reducer raises on \<^verbatim>\<open>workflowLoaded\<close>; every other call goes through.\<close>

definition dispatch_fails :: "(nat, demo_doc, string, string) call \<Rightarrow> string js_error option" where
  "dispatch_fails c =
     (case c of Dispatch_workflowLoaded w \<Rightarrow> Some (Error ''reducer failed'') | _ \<Rightarrow> None)"

definition demo_world :: "(unit, nat, demo_doc, string, string) world" where
  "demo_world =
     \<lparr>templates = (),
      nodeExecutionStates = [''n1'' \<mapsto> 7],
      needsFit = False,
      calls = [Log_warn ''earlier'' ''an earlier call'']\<rparr>"

section \<open>Properties\<close>

subsection \<open>Calls of one run\<close>

lemma calls_warnings_forEach:
  "calls (warnings_forEach ws s) = calls s @ map (\<lambda>w. Log_warn (rest w) (message w)) ws"
  by (induction ws arbitrary: s) (simp_all add: log_warn_def)

lemma atoms_warnings_forEach:
  "nodeExecutionStates (warnings_forEach ws s) = nodeExecutionStates s \<and>
   needsFit (warnings_forEach ws s) = needsFit s \<and>
   templates (warnings_forEach ws s) = templates s"
  by (induction ws arbitrary: s) (simp_all add: log_warn_def)

lemma toasts_of_append: "toasts_of (xs @ ys) = toasts_of xs @ toasts_of ys"
  by (induction xs rule: toasts_of.induct) simp_all

lemma dispatched_of_append: "dispatched_of (xs @ ys) = dispatched_of xs @ dispatched_of ys"
  by (induction xs rule: dispatched_of.induct) simp_all

lemma warned_of_append: "warned_of (xs @ ys) = warned_of xs @ warned_of ys"
  by (induction xs rule: warned_of.induct) simp_all

lemma toasts_of_log_warns: "toasts_of (map (\<lambda>w. Log_warn (f w) (g w)) ws) = []"
  by (induction ws) simp_all

lemma dispatched_of_log_warns: "dispatched_of (map (\<lambda>w. Log_warn (f w) (g w)) ws) = []"
  by (induction ws) simp_all

lemma warned_of_log_warns:
  "warned_of (map (\<lambda>w. Log_warn (f w) (g w)) ws) = map (\<lambda>w. (f w, g w)) ws"
  by (induction ws) simp_all

text \<open>A successful run: the calls it makes, the atoms it leaves, the value it returns.\<close>

lemma emitted_success:
  assumes "getWorkflowFromStringifiedWorkflowOrGraph env data (templates s) = Inr r"
  shows "emitted s (snd (loadWorkflow env data s)) =
           [NodeExecutionStates_set Map.empty, Dispatch_workflowLoaded (validated_workflow r)]
           @ (if warnings r = [] then [Toast (loaded_toast env)]
              else Toast (loadedWithWarnings_toast env)
                   # map (\<lambda>w. Log_warn (rest w) (message w)) (warnings r))
           @ [NeedsFit_set True]"
  using assms
  by (simp add: loadWorkflow_def emitted_def Let_def needsFit_set_def toast_def
      dispatch_workflowLoaded_def nodeExecutionStates_set_def calls_warnings_forEach)

lemma atoms_success:
  assumes "getWorkflowFromStringifiedWorkflowOrGraph env data (templates s) = Inr r"
  shows "nodeExecutionStates (snd (loadWorkflow env data s)) = Map.empty"
    and "needsFit (snd (loadWorkflow env data s)) = True"
    and "fst (loadWorkflow env data s) = Some (validated_workflow r)"
  using assms
  by (simp_all add: loadWorkflow_def Let_def needsFit_set_def toast_def
      dispatch_workflowLoaded_def nodeExecutionStates_set_def atoms_warnings_forEach)

text \<open>A failed run: the \<^verbatim>\<open>catch\<close> block logs once and toasts once, and touches no atom.\<close>

lemma calls_catch:
  "calls (loadWorkflow_catch env e s) =
     calls s @
     [Log_error e
        (case e of
           WorkflowVersionError m \<Rightarrow> m
         | WorkflowMigrationError m \<Rightarrow> m
         | ZodError z \<Rightarrow> fromZodError env z (i18n_t env ''nodes.workflowValidation'')
         | SyntaxError m \<Rightarrow> i18n_t env ''nodes.unknownErrorValidatingWorkflow''
         | Error m \<Rightarrow> i18n_t env ''nodes.unknownErrorValidatingWorkflow''),
      Toast (unable_toast env
        (case e of
           WorkflowVersionError m \<Rightarrow> m
         | WorkflowMigrationError m \<Rightarrow> m
         | ZodError z \<Rightarrow> fromZodError env z (i18n_t env ''nodes.workflowValidation'')
         | SyntaxError m \<Rightarrow> i18n_t env ''nodes.unknownErrorValidatingWorkflow''
         | Error m \<Rightarrow> i18n_t env ''nodes.unknownErrorValidatingWorkflow''))]"
  by (cases e) (simp_all add: loadWorkflow_catch_def toast_def log_error_def Let_def)

lemma atoms_catch:
  "nodeExecutionStates (loadWorkflow_catch env e s) = nodeExecutionStates s \<and>
   needsFit (loadWorkflow_catch env e s) = needsFit s \<and>
   templates (loadWorkflow_catch env e s) = templates s"
  by (cases e) (simp_all add: loadWorkflow_catch_def toast_def log_error_def Let_def)

lemma loadWorkflow_failure:
  assumes "getWorkflowFromStringifiedWorkflowOrGraph env data (templates s) = Inl e"
  shows "loadWorkflow env data s = (None, loadWorkflow_catch env e s)"
  using assms by (simp add: loadWorkflow_def)

lemma emitted_failure:
  assumes "getWorkflowFromStringifiedWorkflowOrGraph env data (templates s) = Inl e"
  shows "emitted s (snd (loadWorkflow env data s)) =
     [Log_error e
        (case e of
           WorkflowVersionError m \<Rightarrow> m
         | WorkflowMigrationError m \<Rightarrow> m
         | ZodError z \<Rightarrow> fromZodError env z (i18n_t env ''nodes.workflowValidation'')
         | SyntaxError m \<Rightarrow> i18n_t env ''nodes.unknownErrorValidatingWorkflow''
         | Error m \<Rightarrow> i18n_t env ''nodes.unknownErrorValidatingWorkflow''),
      Toast (unable_toast env
        (case e of
           WorkflowVersionError m \<Rightarrow> m
         | WorkflowMigrationError m \<Rightarrow> m
         | ZodError z \<Rightarrow> fromZodError env z (i18n_t env ''nodes.workflowValidation'')
         | SyntaxError m \<Rightarrow> i18n_t env ''nodes.unknownErrorValidatingWorkflow''
         | Error m \<Rightarrow> i18n_t env ''nodes.unknownErrorValidatingWorkflow''))]"
  by (simp add: loadWorkflow_failure [OF assms] emitted_def calls_catch)

lemma validated_document:
  assumes "document_for_validation env data = Some doc"
  shows "getWorkflowFromStringifiedWorkflowOrGraph env data tpls =
           validateWorkflow env doc tpls
             (checkImageAccess env) (checkBoardAccess env) (checkModelAccess env)"
  using assms
  by (auto simp: document_for_validation_def getWorkflowFromStringifiedWorkflowOrGraph_def
      split: if_splits sum.splits)

text \<open>Unfolding the concrete installation.\<close>

lemmas demo_defs =
  getWorkflowFromStringifiedWorkflowOrGraph_def truthy_def
  demo_env_def demo_parse_def demo_graphToWorkflow_def demo_validator_def
  demo_validate_latest_def demo_world_def spec_validateWorkflow_def recognized_def
  chain_from_def unable_toast_def loaded_toast_def loadedWithWarnings_toast_def

lemma demo_loads:
  "getWorkflowFromStringifiedWorkflowOrGraph demo_env
     \<lparr>workflow = Some ''{3}'', graph = None\<rparr> (templates demo_world) =
   Inr \<lparr>validated_workflow = (''3.0.0'', [''a'']), warnings = []\<rparr>"
  by (simp add: demo_defs)

lemma demo_loads_with_warnings:
  "getWorkflowFromStringifiedWorkflowOrGraph demo_env
     \<lparr>workflow = Some ''{3i}'', graph = None\<rparr> (templates demo_world) =
   Inr \<lparr>validated_workflow = (''3.0.0'', [''a'', ''img'']),
        warnings = [\<lparr>message = ''not accessible'', rest = ''img''\<rparr>]\<rparr>"
  by (simp add: demo_defs)

lemma demo_unknown_version:
  "getWorkflowFromStringifiedWorkflowOrGraph demo_env
     \<lparr>workflow = Some ''{9}'', graph = None\<rparr> (templates demo_world) =
   Inl (WorkflowVersionError ''version not recognized'')"
  by (simp add: demo_defs)

lemma demo_no_migration:
  "getWorkflowFromStringifiedWorkflowOrGraph demo_env
     \<lparr>workflow = Some ''{0}'', graph = None\<rparr> (templates demo_world) =
   Inl (WorkflowMigrationError ''migration failed'')"
  by (simp add: demo_defs)

lemma demo_schema_violation:
  "getWorkflowFromStringifiedWorkflowOrGraph demo_env
     \<lparr>workflow = Some ''{3e}'', graph = None\<rparr> (templates demo_world) =
   Inl (ZodError ''nodes: expected a node'')"
  by (simp add: demo_defs)

lemma demo_missing:
  "getWorkflowFromStringifiedWorkflowOrGraph demo_env
     \<lparr>workflow = None, graph = None\<rparr> (templates demo_world) =
   Inl (Error ''No workflow or graph provided'')"
  by (simp add: demo_defs)

lemma demo_boom:
  "getWorkflowFromStringifiedWorkflowOrGraph boom_env
     \<lparr>workflow = Some ''{3}'', graph = None\<rparr> (templates demo_world) =
   Inl (Error ''boom'')"
  by (simp add: demo_defs boom_env_def)

lemma demo_malformed:
  "getWorkflowFromStringifiedWorkflowOrGraph demo_env
     \<lparr>workflow = Some ''not json'', graph = None\<rparr> (templates demo_world) =
   Inl (SyntaxError ''Unexpected token'')"
  by (simp add: demo_defs)

subsection \<open>Failure: the boundary of the orchestrator\<close>

text \<open>
  C1. Whatever the input, when loading raises an error (in parsing, in the conversion or
  in validation), \<^verbatim>\<open>loadWorkflow\<close> catches it: it returns \<^verbatim>\<open>null\<close> and issues exactly one
  notification, the error toast \<^verbatim>\<open>UNABLE_TO_VALIDATE_WORKFLOW\<close>, whose description is
  computed from the kind of the error. The model's \<open>loadWorkflow\<close> is a total function
  into an optional document: no error leaves the call.
\<close>

theorem loadWorkflow_catches_every_error:
  assumes "getWorkflowFromStringifiedWorkflowOrGraph env data (templates s) = Inl e"
  shows "fst (loadWorkflow env data s) = None \<and>
         toasts_of (emitted s (snd (loadWorkflow env data s))) =
           [\<lparr>toast_id = ''UNABLE_TO_VALIDATE_WORKFLOW'',
             title = i18n_t env ''nodes.unableToValidateWorkflow'',
             status = ''error'',
             description = Some
               (case e of
                  WorkflowVersionError m \<Rightarrow> m
                | WorkflowMigrationError m \<Rightarrow> m
                | ZodError z \<Rightarrow> fromZodError env z (i18n_t env ''nodes.workflowValidation'')
                | SyntaxError m \<Rightarrow> i18n_t env ''nodes.unknownErrorValidatingWorkflow''
                | Error m \<Rightarrow> i18n_t env ''nodes.unknownErrorValidatingWorkflow'')\<rparr>]"
proof -
  have "fst (loadWorkflow env data s) = None"
    by (simp add: loadWorkflow_failure [OF assms])
  moreover have "toasts_of (emitted s (snd (loadWorkflow env data s))) =
      [unable_toast env
        (case e of
           WorkflowVersionError m \<Rightarrow> m
         | WorkflowMigrationError m \<Rightarrow> m
         | ZodError z \<Rightarrow> fromZodError env z (i18n_t env ''nodes.workflowValidation'')
         | SyntaxError m \<Rightarrow> i18n_t env ''nodes.unknownErrorValidatingWorkflow''
         | Error m \<Rightarrow> i18n_t env ''nodes.unknownErrorValidatingWorkflow'')]"
    by (simp add: emitted_failure [OF assms])
  ultimately show ?thesis
    by (simp add: unable_toast_def)
qed

theorem loadWorkflow_catches_every_error_witness:
  "getWorkflowFromStringifiedWorkflowOrGraph demo_env
     \<lparr>workflow = Some ''{3e}'', graph = None\<rparr> (templates demo_world) =
     Inl (ZodError ''nodes: expected a node'') \<and>
   fst (loadWorkflow demo_env \<lparr>workflow = Some ''{3e}'', graph = None\<rparr> demo_world) = None \<and>
   toasts_of (emitted demo_world
       (snd (loadWorkflow demo_env \<lparr>workflow = Some ''{3e}'', graph = None\<rparr> demo_world))) =
     [\<lparr>toast_id = ''UNABLE_TO_VALIDATE_WORKFLOW'',
       title = ''t:nodes.unableToValidateWorkflow'',
       status = ''error'',
       description = Some ''t:nodes.workflowValidation: nodes: expected a node''\<rparr>]"
  using loadWorkflow_catches_every_error [OF demo_schema_violation] demo_schema_violation
  by (simp add: demo_env_def)

text \<open>
  C5. The description of the error notification follows the kind of the error: a
  \<^verbatim>\<open>WorkflowVersionError\<close> or a \<^verbatim>\<open>WorkflowMigrationError\<close> gives its own message; a schema
  error (\<^verbatim>\<open>z.ZodError\<close>) gives the message \<^verbatim>\<open>fromZodError\<close> builds with the translated
  prefix \<^verbatim>\<open>nodes.workflowValidation\<close>; every other error gives the translated
  \<^verbatim>\<open>nodes.unknownErrorValidatingWorkflow\<close>.
\<close>

theorem error_description_by_kind:
  assumes "getWorkflowFromStringifiedWorkflowOrGraph env data (templates s) = Inl e"
  shows "(e = WorkflowVersionError m \<longrightarrow>
            map description (toasts_of (emitted s (snd (loadWorkflow env data s)))) = [Some m]) \<and>
         (e = WorkflowMigrationError m \<longrightarrow>
            map description (toasts_of (emitted s (snd (loadWorkflow env data s)))) = [Some m]) \<and>
         (e = ZodError z \<longrightarrow>
            map description (toasts_of (emitted s (snd (loadWorkflow env data s)))) =
              [Some (fromZodError env z (i18n_t env ''nodes.workflowValidation''))]) \<and>
         (e = SyntaxError m \<or> e = Error m \<longrightarrow>
            map description (toasts_of (emitted s (snd (loadWorkflow env data s)))) =
              [Some (i18n_t env ''nodes.unknownErrorValidatingWorkflow'')])"
  by (auto simp: emitted_failure [OF assms] unable_toast_def)

theorem error_description_by_kind_witness:
  "map description (toasts_of (emitted demo_world
     (snd (loadWorkflow demo_env \<lparr>workflow = Some ''{9}'', graph = None\<rparr> demo_world)))) =
     [Some ''version not recognized''] \<and>
   map description (toasts_of (emitted demo_world
     (snd (loadWorkflow demo_env \<lparr>workflow = Some ''{0}'', graph = None\<rparr> demo_world)))) =
     [Some ''migration failed''] \<and>
   map description (toasts_of (emitted demo_world
     (snd (loadWorkflow demo_env \<lparr>workflow = Some ''{3e}'', graph = None\<rparr> demo_world)))) =
     [Some ''t:nodes.workflowValidation: nodes: expected a node''] \<and>
   map description (toasts_of (emitted demo_world
     (snd (loadWorkflow demo_env \<lparr>workflow = Some ''not json'', graph = None\<rparr> demo_world)))) =
     [Some ''t:nodes.unknownErrorValidatingWorkflow''] \<and>
   map description (toasts_of (emitted demo_world
     (snd (loadWorkflow demo_env \<lparr>workflow = None, graph = None\<rparr> demo_world)))) =
     [Some ''t:nodes.unknownErrorValidatingWorkflow'']"
  using error_description_by_kind [OF demo_unknown_version, of "''version not recognized''"]
    error_description_by_kind [OF demo_no_migration, of "''migration failed''"]
    error_description_by_kind [OF demo_schema_violation, of _ "''nodes: expected a node''"]
    error_description_by_kind [OF demo_malformed, of "''Unexpected token''"]
    error_description_by_kind [OF demo_missing, of "''No workflow or graph provided''"]
  by (simp add: demo_env_def)

text \<open>
  With collaborators that never raise, \<open>loadWorkflow_raising\<close> is \<open>loadWorkflow\<close>.
\<close>

lemma warnings_forEach_never_raising:
  "warnings_forEach_raising (\<lambda>c. None) ws s = (None, warnings_forEach ws s)"
  by (induction ws arbitrary: s) (simp_all add: attempt_def and_then_def)

lemma loadWorkflow_never_raising:
  "loadWorkflow_raising (\<lambda>c. None) env data s = loadWorkflow env data s"
  by (simp add: loadWorkflow_raising_def loadWorkflow_def loadWorkflow_try_effects_def
      attempt_def and_then_def warnings_forEach_never_raising Let_def split: sum.splits)

lemma loadWorkflow_raising_failure:
  assumes "getWorkflowFromStringifiedWorkflowOrGraph env data (templates s) = Inl e"
  shows "loadWorkflow_raising raises env data s = (None, loadWorkflow_catch env e s)"
  using assms by (simp add: loadWorkflow_raising_def)

text \<open>
  C9, as amended. When loading fails because parsing, conversion or validation raises
  an error, of any kind, the load is atomic whatever the other collaborators do: the
  execution states and the needs-fit flag are as they were, no document is dispatched,
  and the run makes two calls only, one error log entry followed by one error
  notification; \<^verbatim>\<open>null\<close> is returned.
\<close>

theorem loading_failure_leaves_stores_untouched:
  assumes "getWorkflowFromStringifiedWorkflowOrGraph env data (templates s) = Inl e"
  shows "fst (loadWorkflow_raising raises env data s) = None \<and>
         nodeExecutionStates (snd (loadWorkflow_raising raises env data s)) =
           nodeExecutionStates s \<and>
         needsFit (snd (loadWorkflow_raising raises env data s)) = needsFit s \<and>
         dispatched_of (emitted s (snd (loadWorkflow_raising raises env data s))) = [] \<and>
         (\<exists>m. emitted s (snd (loadWorkflow_raising raises env data s)) =
                 [Log_error e m,
                  Toast \<lparr>toast_id = ''UNABLE_TO_VALIDATE_WORKFLOW'',
                         title = i18n_t env ''nodes.unableToValidateWorkflow'',
                         status = ''error'',
                         description = Some m\<rparr>])"
proof -
  have run: "loadWorkflow_raising raises env data s = (None, loadWorkflow_catch env e s)"
    by (rule loadWorkflow_raising_failure [OF assms])
  have atoms: "nodeExecutionStates (snd (loadWorkflow_raising raises env data s)) =
                 nodeExecutionStates s"
    "needsFit (snd (loadWorkflow_raising raises env data s)) = needsFit s"
    "fst (loadWorkflow_raising raises env data s) = None"
    by (simp_all add: run atoms_catch)
  have "dispatched_of (emitted s (snd (loadWorkflow_raising raises env data s))) = []"
    by (simp add: run emitted_def calls_catch)
  moreover have "\<exists>m. emitted s (snd (loadWorkflow_raising raises env data s)) =
                       [Log_error e m, Toast (unable_toast env m)]"
    by (simp add: run emitted_def calls_catch)
  ultimately show ?thesis
    using atoms by (simp add: unable_toast_def)
qed

theorem loading_failure_leaves_stores_untouched_witness:
  "getWorkflowFromStringifiedWorkflowOrGraph demo_env
     \<lparr>workflow = Some ''{0}'', graph = None\<rparr> (templates demo_world) =
     Inl (WorkflowMigrationError ''migration failed'') \<and>
   fst (loadWorkflow_raising dispatch_fails demo_env
          \<lparr>workflow = Some ''{0}'', graph = None\<rparr> demo_world) = None \<and>
   nodeExecutionStates
     (snd (loadWorkflow_raising dispatch_fails demo_env
             \<lparr>workflow = Some ''{0}'', graph = None\<rparr> demo_world)) = [''n1'' \<mapsto> 7] \<and>
   needsFit
     (snd (loadWorkflow_raising dispatch_fails demo_env
             \<lparr>workflow = Some ''{0}'', graph = None\<rparr> demo_world)) = False \<and>
   dispatched_of (emitted demo_world
     (snd (loadWorkflow_raising dispatch_fails demo_env
             \<lparr>workflow = Some ''{0}'', graph = None\<rparr> demo_world))) = []"
  using loading_failure_leaves_stores_untouched [OF demo_no_migration, of dispatch_fails]
    demo_no_migration
  by (simp add: demo_world_def)

text \<open>
  C9 as stated fails: a load can fail after the first effects of the \<^verbatim>\<open>try\<close> block.
  The document parses and validates; \<^verbatim>\<open>dispatch\<close> raises on line 54; the \<^verbatim>\<open>catch\<close> block
  logs, notifies and returns \<^verbatim>\<open>null\<close>; and the execution states, which held an entry,
  have been emptied by line 53.
\<close>

theorem failure_after_reset_counterexample:
  "getWorkflowFromStringifiedWorkflowOrGraph demo_env
     \<lparr>workflow = Some ''{3}'', graph = None\<rparr> (templates demo_world) =
     Inr \<lparr>validated_workflow = (''3.0.0'', [''a'']), warnings = []\<rparr> \<and>
   dispatch_fails (Dispatch_workflowLoaded (''3.0.0'', [''a''])) =
     Some (Error ''reducer failed'') \<and>
   fst (loadWorkflow_raising dispatch_fails demo_env
          \<lparr>workflow = Some ''{3}'', graph = None\<rparr> demo_world) = None \<and>
   nodeExecutionStates demo_world ''n1'' = Some 7 \<and>
   nodeExecutionStates
     (snd (loadWorkflow_raising dispatch_fails demo_env
             \<lparr>workflow = Some ''{3}'', graph = None\<rparr> demo_world)) ''n1'' = None \<and>
   emitted demo_world
     (snd (loadWorkflow_raising dispatch_fails demo_env
             \<lparr>workflow = Some ''{3}'', graph = None\<rparr> demo_world)) =
     [NodeExecutionStates_set Map.empty,
      Log_error (Error ''reducer failed'') ''t:nodes.unknownErrorValidatingWorkflow'',
      Toast \<lparr>toast_id = ''UNABLE_TO_VALIDATE_WORKFLOW'',
             title = ''t:nodes.unableToValidateWorkflow'',
             status = ''error'',
             description = Some ''t:nodes.unknownErrorValidatingWorkflow''\<rparr>]"
proof -
  have run: "loadWorkflow_raising dispatch_fails demo_env
               \<lparr>workflow = Some ''{3}'', graph = None\<rparr> demo_world =
             (None, loadWorkflow_catch demo_env (Error ''reducer failed'')
                      (nodeExecutionStates_set Map.empty demo_world))"
    unfolding loadWorkflow_raising_def demo_loads
    by (simp add: loadWorkflow_try_effects_def attempt_def and_then_def dispatch_fails_def)
  have "emitted demo_world
          (loadWorkflow_catch demo_env (Error ''reducer failed'')
             (nodeExecutionStates_set Map.empty demo_world)) =
        [NodeExecutionStates_set Map.empty,
         Log_error (Error ''reducer failed'') ''t:nodes.unknownErrorValidatingWorkflow'',
         Toast \<lparr>toast_id = ''UNABLE_TO_VALIDATE_WORKFLOW'',
                title = ''t:nodes.unableToValidateWorkflow'',
                status = ''error'',
                description = Some ''t:nodes.unknownErrorValidatingWorkflow''\<rparr>]"
    by (simp add: emitted_def calls_catch nodeExecutionStates_set_def unable_toast_def
        demo_env_def demo_world_def)
  moreover have "nodeExecutionStates
          (loadWorkflow_catch demo_env (Error ''reducer failed'')
             (nodeExecutionStates_set Map.empty demo_world)) ''n1'' = None"
    by (simp add: atoms_catch nodeExecutionStates_set_def)
  moreover have "nodeExecutionStates demo_world ''n1'' = Some 7"
    by (simp add: demo_world_def)
  moreover have "dispatch_fails (Dispatch_workflowLoaded (''3.0.0'', [''a''])) =
                   Some (Error ''reducer failed'')"
    by (simp add: dispatch_fails_def)
  ultimately show ?thesis
    using demo_loads by (simp add: run)
qed

subsection \<open>Success: the effects of a load\<close>

text \<open>
  C6. A successful load issues exactly one notification: with no warning the toast
  \<^verbatim>\<open>WORKFLOW_LOADED\<close> titled \<^verbatim>\<open>toast.workflowLoaded\<close> with status \<^verbatim>\<open>success\<close>, otherwise
  the toast \<^verbatim>\<open>WORKFLOW_LOADED\<close> titled \<^verbatim>\<open>toast.loadedWithWarnings\<close> with status
  \<^verbatim>\<open>warning\<close>, and the two differ. Every warning is logged with \<^verbatim>\<open>log.warn\<close>, in order,
  one line each; no warning gets a notification of its own.
\<close>

theorem success_notification:
  assumes "getWorkflowFromStringifiedWorkflowOrGraph env data (templates s) = Inr r"
  shows "toasts_of (emitted s (snd (loadWorkflow env data s))) =
           [if warnings r = []
            then \<lparr>toast_id = ''WORKFLOW_LOADED'',
                  title = i18n_t env ''toast.workflowLoaded'',
                  status = ''success'',
                  description = None\<rparr>
            else \<lparr>toast_id = ''WORKFLOW_LOADED'',
                  title = i18n_t env ''toast.loadedWithWarnings'',
                  status = ''warning'',
                  description = None\<rparr>] \<and>
         warned_of (emitted s (snd (loadWorkflow env data s))) =
           map (\<lambda>w. (rest w, message w)) (warnings r) \<and>
         \<lparr>toast_id = ''WORKFLOW_LOADED'',
          title = i18n_t env ''toast.workflowLoaded'',
          status = ''success'',
          description = None\<rparr> \<noteq>
         \<lparr>toast_id = ''WORKFLOW_LOADED'',
          title = i18n_t env ''toast.loadedWithWarnings'',
          status = ''warning'',
          description = None\<rparr>"
  by (simp add: emitted_success [OF assms] toasts_of_append warned_of_append
      toasts_of_log_warns warned_of_log_warns loaded_toast_def loadedWithWarnings_toast_def)

theorem success_notification_witness:
  "getWorkflowFromStringifiedWorkflowOrGraph demo_env
     \<lparr>workflow = Some ''{3}'', graph = None\<rparr> (templates demo_world) =
     Inr \<lparr>validated_workflow = (''3.0.0'', [''a'']), warnings = []\<rparr> \<and>
   toasts_of (emitted demo_world
     (snd (loadWorkflow demo_env \<lparr>workflow = Some ''{3}'', graph = None\<rparr> demo_world))) =
     [\<lparr>toast_id = ''WORKFLOW_LOADED'', title = ''t:toast.workflowLoaded'',
       status = ''success'', description = None\<rparr>] \<and>
   warned_of (emitted demo_world
     (snd (loadWorkflow demo_env \<lparr>workflow = Some ''{3}'', graph = None\<rparr> demo_world))) = [] \<and>
   getWorkflowFromStringifiedWorkflowOrGraph demo_env
     \<lparr>workflow = Some ''{3i}'', graph = None\<rparr> (templates demo_world) =
     Inr \<lparr>validated_workflow = (''3.0.0'', [''a'', ''img'']),
          warnings = [\<lparr>message = ''not accessible'', rest = ''img''\<rparr>]\<rparr> \<and>
   toasts_of (emitted demo_world
     (snd (loadWorkflow demo_env \<lparr>workflow = Some ''{3i}'', graph = None\<rparr> demo_world))) =
     [\<lparr>toast_id = ''WORKFLOW_LOADED'', title = ''t:toast.loadedWithWarnings'',
       status = ''warning'', description = None\<rparr>] \<and>
   warned_of (emitted demo_world
     (snd (loadWorkflow demo_env \<lparr>workflow = Some ''{3i}'', graph = None\<rparr> demo_world))) =
     [(''img'', ''not accessible'')]"
  using success_notification [OF demo_loads] demo_loads
    success_notification [OF demo_loads_with_warnings] demo_loads_with_warnings
  by (simp add: demo_env_def)

text \<open>
  C7. A successful load performs its three side effects: the validated document is
  dispatched to the store with \<^verbatim>\<open>workflowLoaded\<close>, the execution states are set to the
  empty object, and the needs-fit flag is set.
\<close>

theorem success_side_effects:
  assumes "getWorkflowFromStringifiedWorkflowOrGraph env data (templates s) = Inr r"
  shows "Dispatch_workflowLoaded (validated_workflow r)
           \<in> set (emitted s (snd (loadWorkflow env data s))) \<and>
         NodeExecutionStates_set Map.empty \<in> set (emitted s (snd (loadWorkflow env data s))) \<and>
         nodeExecutionStates (snd (loadWorkflow env data s)) = Map.empty \<and>
         NeedsFit_set True \<in> set (emitted s (snd (loadWorkflow env data s))) \<and>
         needsFit (snd (loadWorkflow env data s)) = True"
  by (simp add: emitted_success [OF assms] atoms_success [OF assms])

theorem success_side_effects_witness:
  "getWorkflowFromStringifiedWorkflowOrGraph demo_env
     \<lparr>workflow = Some ''{3}'', graph = None\<rparr> (templates demo_world) =
     Inr \<lparr>validated_workflow = (''3.0.0'', [''a'']), warnings = []\<rparr> \<and>
   Dispatch_workflowLoaded (''3.0.0'', [''a''])
     \<in> set (emitted demo_world
         (snd (loadWorkflow demo_env \<lparr>workflow = Some ''{3}'', graph = None\<rparr> demo_world))) \<and>
   nodeExecutionStates demo_world = [''n1'' \<mapsto> 7] \<and>
   nodeExecutionStates
     (snd (loadWorkflow demo_env \<lparr>workflow = Some ''{3}'', graph = None\<rparr> demo_world)) =
     Map.empty \<and>
   needsFit demo_world = False \<and>
   needsFit
     (snd (loadWorkflow demo_env \<lparr>workflow = Some ''{3}'', graph = None\<rparr> demo_world)) = True"
  using success_side_effects [OF demo_loads] demo_loads
  by (simp add: demo_world_def)

text \<open>
  C10. On a successful load the returned document is the document dispatched to the
  store, the \<open>validated_workflow\<close> of the validator's result, unchanged; it is the only
  document dispatched; and the run starts with the reset of the execution states, followed
  at once by the dispatch.
\<close>

theorem returned_document_is_published:
  assumes "getWorkflowFromStringifiedWorkflowOrGraph env data (templates s) = Inr r"
  shows "fst (loadWorkflow env data s) = Some (validated_workflow r) \<and>
         dispatched_of (emitted s (snd (loadWorkflow env data s))) = [validated_workflow r] \<and>
         take 2 (emitted s (snd (loadWorkflow env data s))) =
           [NodeExecutionStates_set Map.empty, Dispatch_workflowLoaded (validated_workflow r)]"
  by (simp add: emitted_success [OF assms] atoms_success [OF assms] dispatched_of_append
      dispatched_of_log_warns)

theorem returned_document_is_published_witness:
  "getWorkflowFromStringifiedWorkflowOrGraph demo_env
     \<lparr>workflow = Some ''{3i}'', graph = None\<rparr> (templates demo_world) =
     Inr \<lparr>validated_workflow = (''3.0.0'', [''a'', ''img'']),
          warnings = [\<lparr>message = ''not accessible'', rest = ''img''\<rparr>]\<rparr> \<and>
   fst (loadWorkflow demo_env \<lparr>workflow = Some ''{3i}'', graph = None\<rparr> demo_world) =
     Some (''3.0.0'', [''a'', ''img'']) \<and>
   dispatched_of (emitted demo_world
     (snd (loadWorkflow demo_env \<lparr>workflow = Some ''{3i}'', graph = None\<rparr> demo_world))) =
     [(''3.0.0'', [''a'', ''img''])] \<and>
   take 2 (emitted demo_world
     (snd (loadWorkflow demo_env \<lparr>workflow = Some ''{3i}'', graph = None\<rparr> demo_world))) =
     [NodeExecutionStates_set Map.empty, Dispatch_workflowLoaded (''3.0.0'', [''a'', ''img''])]"
  using returned_document_is_published [OF demo_loads_with_warnings] demo_loads_with_warnings
  by simp

subsection \<open>Which string is loaded\<close>

text \<open>
  C2, as amended. When the workflow string is truthy (not \<^verbatim>\<open>null\<close> and not empty), it is
  parsed and the parsed value is validated, and the graph field plays no part: replacing
  it by anything leaves the result as it is. Otherwise, when the graph string is truthy,
  it is parsed, converted with \<^verbatim>\<open>graphToWorkflow(parsed, true)\<close>, and the converted
  workflow is validated. A failure of the parser is a \<^verbatim>\<open>SyntaxError\<close>; a failure of the
  converter is passed on.
\<close>

theorem workflow_preferred_over_graph:
  "(truthy (workflow data) \<longrightarrow>
      getWorkflowFromStringifiedWorkflowOrGraph env data tpls =
        (case JSON_parse env (the (workflow data)) of
           Inl m \<Rightarrow> Inl (SyntaxError m)
         | Inr parsed \<Rightarrow>
             validateWorkflow env parsed tpls
               (checkImageAccess env) (checkBoardAccess env) (checkModelAccess env)) \<and>
      getWorkflowFromStringifiedWorkflowOrGraph env (data\<lparr>graph := g\<rparr>) tpls =
        getWorkflowFromStringifiedWorkflowOrGraph env data tpls) \<and>
   (\<not> truthy (workflow data) \<and> truthy (graph data) \<longrightarrow>
      getWorkflowFromStringifiedWorkflowOrGraph env data tpls =
        (case JSON_parse env (the (graph data)) of
           Inl m \<Rightarrow> Inl (SyntaxError m)
         | Inr parsed \<Rightarrow>
             (case graphToWorkflow env parsed True of
                Inl e \<Rightarrow> Inl e
              | Inr converted \<Rightarrow>
                  validateWorkflow env converted tpls
                    (checkImageAccess env) (checkBoardAccess env) (checkModelAccess env))))"
  by (simp add: getWorkflowFromStringifiedWorkflowOrGraph_def)

theorem workflow_preferred_over_graph_witness:
  "truthy (workflow \<lparr>workflow = Some ''{3}'', graph = Some ''{g}''\<rparr>) \<and>
   getWorkflowFromStringifiedWorkflowOrGraph demo_env
     \<lparr>workflow = Some ''{3}'', graph = Some ''{g}''\<rparr> () =
     Inr \<lparr>validated_workflow = (''3.0.0'', [''a'']), warnings = []\<rparr> \<and>
   getWorkflowFromStringifiedWorkflowOrGraph demo_env
     (\<lparr>workflow = Some ''{3}'', graph = Some ''{g}''\<rparr>\<lparr>graph := Some ''not json''\<rparr>) () =
     Inr \<lparr>validated_workflow = (''3.0.0'', [''a'']), warnings = []\<rparr> \<and>
   \<not> truthy (workflow \<lparr>workflow = None, graph = Some ''{g}''\<rparr>) \<and>
   truthy (graph \<lparr>workflow = None, graph = Some ''{g}''\<rparr>) \<and>
   getWorkflowFromStringifiedWorkflowOrGraph demo_env
     \<lparr>workflow = None, graph = Some ''{g}''\<rparr> () =
     Inr \<lparr>validated_workflow = (''3.0.0'', [''a'', ''layout'']), warnings = []\<rparr>"
proof -
  have t1: "truthy (workflow \<lparr>workflow = Some ''{3}'', graph = Some ''{g}''\<rparr>)"
    and t2: "\<not> truthy (workflow \<lparr>workflow = None, graph = Some ''{g}''\<rparr>)"
    and t3: "truthy (graph \<lparr>workflow = None, graph = Some ''{g}''\<rparr>)"
    by (simp_all add: truthy_def)
  from t1 workflow_preferred_over_graph
         [of "\<lparr>workflow = Some ''{3}'', graph = Some ''{g}''\<rparr>" demo_env "()" "Some ''not json''"]
  have a: "getWorkflowFromStringifiedWorkflowOrGraph demo_env
             \<lparr>workflow = Some ''{3}'', graph = Some ''{g}''\<rparr> () =
             Inr \<lparr>validated_workflow = (''3.0.0'', [''a'']), warnings = []\<rparr>"
    and b: "getWorkflowFromStringifiedWorkflowOrGraph demo_env
             (\<lparr>workflow = Some ''{3}'', graph = Some ''{g}''\<rparr>\<lparr>graph := Some ''not json''\<rparr>) () =
             getWorkflowFromStringifiedWorkflowOrGraph demo_env
               \<lparr>workflow = Some ''{3}'', graph = Some ''{g}''\<rparr> ()"
    by (simp_all add: demo_env_def demo_parse_def demo_validator_def demo_validate_latest_def
        spec_validateWorkflow_def recognized_def chain_from_def)
  from t2 t3 workflow_preferred_over_graph
         [of "\<lparr>workflow = None, graph = Some ''{g}''\<rparr>" demo_env "()"]
  have c: "getWorkflowFromStringifiedWorkflowOrGraph demo_env
             \<lparr>workflow = None, graph = Some ''{g}''\<rparr> () =
             Inr \<lparr>validated_workflow = (''3.0.0'', [''a'', ''layout'']), warnings = []\<rparr>"
    by (simp add: demo_env_def demo_parse_def demo_validator_def demo_validate_latest_def
        demo_graphToWorkflow_def spec_validateWorkflow_def recognized_def chain_from_def)
  from t1 t2 t3 a b c show ?thesis
    by simp
qed

text \<open>
  C2 as stated fails on a workflow field that is present and empty: the condition
  \<^verbatim>\<open>if (data.workflow)\<close> is false for the empty string, so the loader does not parse the
  workflow string (which the parser rejects) and loads the graph instead.
\<close>

theorem empty_workflow_string_counterexample:
  "workflow \<lparr>workflow = Some [], graph = Some ''{g}''\<rparr> \<noteq> None \<and>
   JSON_parse demo_env (the (workflow \<lparr>workflow = Some [], graph = Some ''{g}''\<rparr>)) =
     Inl ''Unexpected token'' \<and>
   getWorkflowFromStringifiedWorkflowOrGraph demo_env
     \<lparr>workflow = Some [], graph = Some ''{g}''\<rparr> (templates demo_world) =
     Inr \<lparr>validated_workflow = (''3.0.0'', [''a'', ''layout'']), warnings = []\<rparr> \<and>
   fst (loadWorkflow demo_env \<lparr>workflow = Some [], graph = Some ''{g}''\<rparr> demo_world) =
     Some (''3.0.0'', [''a'', ''layout''])"
  by (simp add: loadWorkflow_def demo_defs)

subsection \<open>Missing and malformed input\<close>

text \<open>
  C3, as amended. When neither string is truthy (each is \<^verbatim>\<open>null\<close> or empty), the loader
  throws a plain \<^verbatim>\<open>Error\<close> with the message \<^verbatim>\<open>No workflow or graph provided\<close>. The
  orchestrator handles it in the last branch of its \<^verbatim>\<open>catch\<close> block, as it handles any
  error it does not recognise: one error log entry and one error notification, both with
  the translated \<^verbatim>\<open>nodes.unknownErrorValidatingWorkflow\<close>, and \<^verbatim>\<open>null\<close> for the caller.
\<close>

theorem missing_input_fails:
  assumes "\<not> truthy (workflow data)" and "\<not> truthy (graph data)"
  shows "getWorkflowFromStringifiedWorkflowOrGraph env data (templates s) =
           Inl (Error ''No workflow or graph provided'') \<and>
         fst (loadWorkflow env data s) = None \<and>
         emitted s (snd (loadWorkflow env data s)) =
           [Log_error (Error ''No workflow or graph provided'')
              (i18n_t env ''nodes.unknownErrorValidatingWorkflow''),
            Toast \<lparr>toast_id = ''UNABLE_TO_VALIDATE_WORKFLOW'',
                   title = i18n_t env ''nodes.unableToValidateWorkflow'',
                   status = ''error'',
                   description = Some (i18n_t env ''nodes.unknownErrorValidatingWorkflow'')\<rparr>]"
proof -
  have raised: "getWorkflowFromStringifiedWorkflowOrGraph env data (templates s) =
                  Inl (Error ''No workflow or graph provided'')"
    using assms by (simp add: getWorkflowFromStringifiedWorkflowOrGraph_def)
  have "fst (loadWorkflow env data s) = None"
    by (simp add: loadWorkflow_failure [OF raised])
  moreover have "emitted s (snd (loadWorkflow env data s)) =
      [Log_error (Error ''No workflow or graph provided'')
         (i18n_t env ''nodes.unknownErrorValidatingWorkflow''),
       Toast (unable_toast env (i18n_t env ''nodes.unknownErrorValidatingWorkflow''))]"
    using emitted_failure [OF raised] by simp
  ultimately show ?thesis
    using raised by (simp add: unable_toast_def)
qed

theorem missing_input_fails_witness:
  "\<not> truthy (workflow \<lparr>workflow = None, graph = Some []\<rparr>) \<and>
   \<not> truthy (graph \<lparr>workflow = None, graph = Some []\<rparr>) \<and>
   fst (loadWorkflow demo_env \<lparr>workflow = None, graph = Some []\<rparr> demo_world) = None \<and>
   emitted demo_world (snd (loadWorkflow demo_env \<lparr>workflow = None, graph = Some []\<rparr> demo_world)) =
     [Log_error (Error ''No workflow or graph provided'')
        ''t:nodes.unknownErrorValidatingWorkflow'',
      Toast \<lparr>toast_id = ''UNABLE_TO_VALIDATE_WORKFLOW'',
             title = ''t:nodes.unableToValidateWorkflow'',
             status = ''error'',
             description = Some ''t:nodes.unknownErrorValidatingWorkflow''\<rparr>]"
proof -
  have f1: "\<not> truthy (workflow \<lparr>workflow = None, graph = Some []\<rparr>)"
    and f2: "\<not> truthy (graph \<lparr>workflow = None, graph = Some []\<rparr>)"
    by (simp_all add: truthy_def)
  from missing_input_fails [OF f1 f2, of demo_env demo_world] f1 f2 show ?thesis
    by (simp add: demo_env_def)
qed

text \<open>
  C3 as stated fails: missing input is not a kind of its own. The error raised is a plain
  \<^verbatim>\<open>Error\<close>, and what the orchestrator surfaces and returns for it is what it surfaces and
  returns for an unrelated plain error raised by the validator.
\<close>

theorem missing_input_is_an_unknown_error_counterexample:
  "getWorkflowFromStringifiedWorkflowOrGraph demo_env
     \<lparr>workflow = None, graph = None\<rparr> (templates demo_world) =
     Inl (Error ''No workflow or graph provided'') \<and>
   getWorkflowFromStringifiedWorkflowOrGraph boom_env
     \<lparr>workflow = Some ''{3}'', graph = None\<rparr> (templates demo_world) = Inl (Error ''boom'') \<and>
   toasts_of (emitted demo_world
     (snd (loadWorkflow demo_env \<lparr>workflow = None, graph = None\<rparr> demo_world))) =
   toasts_of (emitted demo_world
     (snd (loadWorkflow boom_env \<lparr>workflow = Some ''{3}'', graph = None\<rparr> demo_world))) \<and>
   fst (loadWorkflow demo_env \<lparr>workflow = None, graph = None\<rparr> demo_world) =
   fst (loadWorkflow boom_env \<lparr>workflow = Some ''{3}'', graph = None\<rparr> demo_world)"
proof -
  have "toasts_of (emitted demo_world
          (snd (loadWorkflow demo_env \<lparr>workflow = None, graph = None\<rparr> demo_world))) =
        toasts_of (emitted demo_world
          (snd (loadWorkflow boom_env \<lparr>workflow = Some ''{3}'', graph = None\<rparr> demo_world)))"
  proof -
    have "unable_toast demo_env (i18n_t demo_env ''nodes.unknownErrorValidatingWorkflow'') =
          unable_toast boom_env (i18n_t boom_env ''nodes.unknownErrorValidatingWorkflow'')"
      by (simp add: unable_toast_def demo_env_def boom_env_def)
    then show ?thesis
      using emitted_failure [OF demo_missing] emitted_failure [OF demo_boom] by simp
  qed
  moreover have "fst (loadWorkflow demo_env \<lparr>workflow = None, graph = None\<rparr> demo_world) =
                 fst (loadWorkflow boom_env \<lparr>workflow = Some ''{3}'', graph = None\<rparr> demo_world)"
    by (simp add: loadWorkflow_failure [OF demo_missing] loadWorkflow_failure [OF demo_boom])
  ultimately show ?thesis
    using demo_missing demo_boom by simp
qed

text \<open>
  C4, as amended. When the string the loader selects (the workflow string if truthy,
  otherwise the graph string if truthy) is rejected by \<^verbatim>\<open>JSON.parse\<close>, the
  \<^verbatim>\<open>SyntaxError\<close> is handled in the last branch of the \<^verbatim>\<open>catch\<close> block, as any error the
  orchestrator does not recognise: one error log entry and one error notification, both
  with the translated \<^verbatim>\<open>nodes.unknownErrorValidatingWorkflow\<close>, and \<^verbatim>\<open>null\<close> for the
  caller.
\<close>

theorem malformed_input_fails:
  assumes "(truthy (workflow data) \<and> JSON_parse env (the (workflow data)) = Inl m) \<or>
           (\<not> truthy (workflow data) \<and> truthy (graph data) \<and>
            JSON_parse env (the (graph data)) = Inl m)"
  shows "getWorkflowFromStringifiedWorkflowOrGraph env data (templates s) =
           Inl (SyntaxError m) \<and>
         fst (loadWorkflow env data s) = None \<and>
         emitted s (snd (loadWorkflow env data s)) =
           [Log_error (SyntaxError m) (i18n_t env ''nodes.unknownErrorValidatingWorkflow''),
            Toast \<lparr>toast_id = ''UNABLE_TO_VALIDATE_WORKFLOW'',
                   title = i18n_t env ''nodes.unableToValidateWorkflow'',
                   status = ''error'',
                   description = Some (i18n_t env ''nodes.unknownErrorValidatingWorkflow'')\<rparr>]"
proof -
  have raised: "getWorkflowFromStringifiedWorkflowOrGraph env data (templates s) =
                  Inl (SyntaxError m)"
    using assms by (auto simp: getWorkflowFromStringifiedWorkflowOrGraph_def)
  have "fst (loadWorkflow env data s) = None"
    by (simp add: loadWorkflow_failure [OF raised])
  moreover have "emitted s (snd (loadWorkflow env data s)) =
      [Log_error (SyntaxError m)
         (i18n_t env ''nodes.unknownErrorValidatingWorkflow''),
       Toast (unable_toast env (i18n_t env ''nodes.unknownErrorValidatingWorkflow''))]"
    using emitted_failure [OF raised] by simp
  ultimately show ?thesis
    using raised by (simp add: unable_toast_def)
qed

theorem malformed_input_fails_witness:
  "truthy (workflow \<lparr>workflow = Some ''not json'', graph = Some ''{g}''\<rparr>) \<and>
   JSON_parse demo_env (the (workflow \<lparr>workflow = Some ''not json'', graph = Some ''{g}''\<rparr>)) =
     Inl ''Unexpected token'' \<and>
   fst (loadWorkflow demo_env \<lparr>workflow = Some ''not json'', graph = Some ''{g}''\<rparr> demo_world) =
     None \<and>
   emitted demo_world
     (snd (loadWorkflow demo_env \<lparr>workflow = Some ''not json'', graph = Some ''{g}''\<rparr> demo_world)) =
     [Log_error (SyntaxError ''Unexpected token'') ''t:nodes.unknownErrorValidatingWorkflow'',
      Toast \<lparr>toast_id = ''UNABLE_TO_VALIDATE_WORKFLOW'',
             title = ''t:nodes.unableToValidateWorkflow'',
             status = ''error'',
             description = Some ''t:nodes.unknownErrorValidatingWorkflow''\<rparr>] \<and>
   \<not> truthy (workflow \<lparr>workflow = None, graph = Some ''[''\<rparr>) \<and>
   truthy (graph \<lparr>workflow = None, graph = Some ''[''\<rparr>) \<and>
   JSON_parse demo_env (the (graph \<lparr>workflow = None, graph = Some ''[''\<rparr>)) =
     Inl ''Unexpected token'' \<and>
   fst (loadWorkflow demo_env \<lparr>workflow = None, graph = Some ''[''\<rparr> demo_world) = None"
proof -
  have h1: "truthy (workflow \<lparr>workflow = Some ''not json'', graph = Some ''{g}''\<rparr>) \<and>
            JSON_parse demo_env
              (the (workflow \<lparr>workflow = Some ''not json'', graph = Some ''{g}''\<rparr>)) =
              Inl ''Unexpected token''"
    by (simp add: truthy_def demo_env_def demo_parse_def)
  have h2: "\<not> truthy (workflow \<lparr>workflow = None, graph = Some ''[''\<rparr>) \<and>
            truthy (graph \<lparr>workflow = None, graph = Some ''[''\<rparr>) \<and>
            JSON_parse demo_env (the (graph \<lparr>workflow = None, graph = Some ''[''\<rparr>)) =
              Inl ''Unexpected token''"
    by (simp add: truthy_def demo_env_def demo_parse_def)
  from malformed_input_fails [OF disjI1, OF h1, of demo_world]
    malformed_input_fails [OF disjI2, OF h2, of demo_world] h1 h2
  show ?thesis
    by (simp add: demo_env_def)
qed

text \<open>
  C4 as stated fails twice. A graph string that does not parse is no failure when the
  workflow string is truthy: the graph is not read and the workflow loads. And a workflow
  string that does not parse is surfaced and answered as an unrelated plain error of the
  validator is.
\<close>

theorem unparseable_graph_ignored_counterexample:
  "JSON_parse demo_env (the (graph \<lparr>workflow = Some ''{3}'', graph = Some ''not json''\<rparr>)) =
     Inl ''Unexpected token'' \<and>
   fst (loadWorkflow demo_env \<lparr>workflow = Some ''{3}'', graph = Some ''not json''\<rparr> demo_world) =
     Some (''3.0.0'', [''a'']) \<and>
   getWorkflowFromStringifiedWorkflowOrGraph demo_env
     \<lparr>workflow = Some ''not json'', graph = None\<rparr> (templates demo_world) =
     Inl (SyntaxError ''Unexpected token'') \<and>
   toasts_of (emitted demo_world
     (snd (loadWorkflow demo_env \<lparr>workflow = Some ''not json'', graph = None\<rparr> demo_world))) =
   toasts_of (emitted demo_world
     (snd (loadWorkflow boom_env \<lparr>workflow = Some ''{3}'', graph = None\<rparr> demo_world)))"
proof -
  have "fst (loadWorkflow demo_env
               \<lparr>workflow = Some ''{3}'', graph = Some ''not json''\<rparr> demo_world) =
          Some (''3.0.0'', [''a''])"
    by (simp add: loadWorkflow_def demo_defs)
  moreover have "JSON_parse demo_env
                   (the (graph \<lparr>workflow = Some ''{3}'', graph = Some ''not json''\<rparr>)) =
                   Inl ''Unexpected token''"
    by (simp add: demo_env_def demo_parse_def)
  moreover have "toasts_of (emitted demo_world
       (snd (loadWorkflow demo_env \<lparr>workflow = Some ''not json'', graph = None\<rparr> demo_world))) =
     toasts_of (emitted demo_world
       (snd (loadWorkflow boom_env \<lparr>workflow = Some ''{3}'', graph = None\<rparr> demo_world)))"
  proof -
    have "unable_toast demo_env (i18n_t demo_env ''nodes.unknownErrorValidatingWorkflow'') =
          unable_toast boom_env (i18n_t boom_env ''nodes.unknownErrorValidatingWorkflow'')"
      by (simp add: unable_toast_def demo_env_def boom_env_def)
    then show ?thesis
      using emitted_failure [OF demo_malformed] emitted_failure [OF demo_boom] by simp
  qed
  ultimately show ?thesis
    using demo_malformed by simp
qed

subsection \<open>Version and migration failures\<close>

text \<open>
  C8. With the validator of the specification: a document whose declared version is not
  recognised makes the load fail with a \<^verbatim>\<open>WorkflowVersionError\<close>, and a document whose
  version is recognised but cannot be migrated to the latest makes it fail with a
  \<^verbatim>\<open>WorkflowMigrationError\<close>. In both cases \<^verbatim>\<open>null\<close> is returned, and the error is logged
  and surfaced by its own branch of the \<^verbatim>\<open>catch\<close> block, with the message of the error
  itself rather than the prefixed schema message or the generic one; the notifications
  of the two kinds differ. The document is the one that reaches the validator, from the
  workflow string or from the converted graph string.
\<close>

theorem version_failures_are_reported:
  assumes "validateWorkflow env = spec_validateWorkflow vd"
    and "document_for_validation env data = Some doc"
  shows "(declared_version vd doc \<notin> set (recognized vd) \<longrightarrow>
            getWorkflowFromStringifiedWorkflowOrGraph env data (templates s) =
              Inl (WorkflowVersionError ''version not recognized'') \<and>
            fst (loadWorkflow env data s) = None \<and>
            emitted s (snd (loadWorkflow env data s)) =
              [Log_error (WorkflowVersionError ''version not recognized'')
                 ''version not recognized'',
               Toast (unable_toast env ''version not recognized'')]) \<and>
         (declared_version vd doc \<in> set (recognized vd) \<and>
          migrate (chain_from vd (declared_version vd doc)) doc = None \<longrightarrow>
            getWorkflowFromStringifiedWorkflowOrGraph env data (templates s) =
              Inl (WorkflowMigrationError ''migration failed'') \<and>
            fst (loadWorkflow env data s) = None \<and>
            emitted s (snd (loadWorkflow env data s)) =
              [Log_error (WorkflowMigrationError ''migration failed'') ''migration failed'',
               Toast (unable_toast env ''migration failed'')]) \<and>
         unable_toast env ''version not recognized'' \<noteq> unable_toast env ''migration failed''"
proof (intro conjI impI)
  assume unknown: "declared_version vd doc \<notin> set (recognized vd)"
  then have raised: "getWorkflowFromStringifiedWorkflowOrGraph env data (templates s) =
                       Inl (WorkflowVersionError ''version not recognized'')"
    by (simp add: validated_document [OF assms(2)] assms(1) spec_validateWorkflow_def)
  then show "getWorkflowFromStringifiedWorkflowOrGraph env data (templates s) =
               Inl (WorkflowVersionError ''version not recognized'')" .
  show "fst (loadWorkflow env data s) = None"
    by (simp add: loadWorkflow_failure [OF raised])
  show "emitted s (snd (loadWorkflow env data s)) =
          [Log_error (WorkflowVersionError ''version not recognized'') ''version not recognized'',
           Toast (unable_toast env ''version not recognized'')]"
    using emitted_failure [OF raised] by simp
next
  assume stuck: "declared_version vd doc \<in> set (recognized vd) \<and>
                 migrate (chain_from vd (declared_version vd doc)) doc = None"
  then have raised: "getWorkflowFromStringifiedWorkflowOrGraph env data (templates s) =
                       Inl (WorkflowMigrationError ''migration failed'')"
    by (simp add: validated_document [OF assms(2)] assms(1) spec_validateWorkflow_def)
  then show "getWorkflowFromStringifiedWorkflowOrGraph env data (templates s) =
               Inl (WorkflowMigrationError ''migration failed'')" .
  show "fst (loadWorkflow env data s) = None"
    by (simp add: loadWorkflow_failure [OF raised])
  show "emitted s (snd (loadWorkflow env data s)) =
          [Log_error (WorkflowMigrationError ''migration failed'') ''migration failed'',
           Toast (unable_toast env ''migration failed'')]"
    using emitted_failure [OF raised] by simp
next
  show "unable_toast env ''version not recognized'' \<noteq> unable_toast env ''migration failed''"
    by (simp add: unable_toast_def)
qed

theorem version_failures_are_reported_witness:
  "validateWorkflow demo_env = spec_validateWorkflow demo_validator \<and>
   document_for_validation demo_env \<lparr>workflow = Some ''{9}'', graph = None\<rparr> =
     Some (''9.9.9'', [''a'']) \<and>
   declared_version demo_validator (''9.9.9'', [''a'']) \<notin> set (recognized demo_validator) \<and>
   fst (loadWorkflow demo_env \<lparr>workflow = Some ''{9}'', graph = None\<rparr> demo_world) = None \<and>
   emitted demo_world
     (snd (loadWorkflow demo_env \<lparr>workflow = Some ''{9}'', graph = None\<rparr> demo_world)) =
     [Log_error (WorkflowVersionError ''version not recognized'') ''version not recognized'',
      Toast \<lparr>toast_id = ''UNABLE_TO_VALIDATE_WORKFLOW'',
             title = ''t:nodes.unableToValidateWorkflow'',
             status = ''error'',
             description = Some ''version not recognized''\<rparr>] \<and>
   document_for_validation demo_env \<lparr>workflow = Some ''{0}'', graph = None\<rparr> =
     Some (''0.1'', [''a'']) \<and>
   declared_version demo_validator (''0.1'', [''a'']) \<in> set (recognized demo_validator) \<and>
   migrate (chain_from demo_validator (declared_version demo_validator (''0.1'', [''a''])))
     (''0.1'', [''a'']) = None \<and>
   fst (loadWorkflow demo_env \<lparr>workflow = Some ''{0}'', graph = None\<rparr> demo_world) = None \<and>
   emitted demo_world
     (snd (loadWorkflow demo_env \<lparr>workflow = Some ''{0}'', graph = None\<rparr> demo_world)) =
     [Log_error (WorkflowMigrationError ''migration failed'') ''migration failed'',
      Toast \<lparr>toast_id = ''UNABLE_TO_VALIDATE_WORKFLOW'',
             title = ''t:nodes.unableToValidateWorkflow'',
             status = ''error'',
             description = Some ''migration failed''\<rparr>]"
proof -
  have v: "validateWorkflow demo_env = spec_validateWorkflow demo_validator"
    by (simp add: demo_env_def)
  have d9: "document_for_validation demo_env \<lparr>workflow = Some ''{9}'', graph = None\<rparr> =
              Some (''9.9.9'', [''a''])"
    and d0: "document_for_validation demo_env \<lparr>workflow = Some ''{0}'', graph = None\<rparr> =
              Some (''0.1'', [''a''])"
    by (simp_all add: document_for_validation_def truthy_def demo_env_def demo_parse_def)
  have u9: "declared_version demo_validator (''9.9.9'', [''a'']) \<notin> set (recognized demo_validator)"
    by (simp add: demo_validator_def recognized_def)
  have r0: "declared_version demo_validator (''0.1'', [''a'']) \<in> set (recognized demo_validator) \<and>
            migrate (chain_from demo_validator (declared_version demo_validator (''0.1'', [''a''])))
              (''0.1'', [''a'']) = None"
    by (simp add: demo_validator_def recognized_def chain_from_def)
  from version_failures_are_reported [OF v d9, of demo_world] u9
  have a: "fst (loadWorkflow demo_env \<lparr>workflow = Some ''{9}'', graph = None\<rparr> demo_world) = None"
    and b: "emitted demo_world
              (snd (loadWorkflow demo_env \<lparr>workflow = Some ''{9}'', graph = None\<rparr> demo_world)) =
            [Log_error (WorkflowVersionError ''version not recognized'') ''version not recognized'',
             Toast (unable_toast demo_env ''version not recognized'')]"
    by simp_all
  from version_failures_are_reported [OF v d0, of demo_world] r0
  have c: "fst (loadWorkflow demo_env \<lparr>workflow = Some ''{0}'', graph = None\<rparr> demo_world) = None"
    and d: "emitted demo_world
              (snd (loadWorkflow demo_env \<lparr>workflow = Some ''{0}'', graph = None\<rparr> demo_world)) =
            [Log_error (WorkflowMigrationError ''migration failed'') ''migration failed'',
             Toast (unable_toast demo_env ''migration failed'')]"
    by simp_all
  have e: "unable_toast demo_env ''version not recognized'' =
             \<lparr>toast_id = ''UNABLE_TO_VALIDATE_WORKFLOW'',
              title = ''t:nodes.unableToValidateWorkflow'',
              status = ''error'',
              description = Some ''version not recognized''\<rparr>"
    and f: "unable_toast demo_env ''migration failed'' =
             \<lparr>toast_id = ''UNABLE_TO_VALIDATE_WORKFLOW'',
              title = ''t:nodes.unableToValidateWorkflow'',
              status = ''error'',
              description = Some ''migration failed''\<rparr>"
    by (simp_all add: unable_toast_def demo_env_def)
  from v d9 d0 u9 r0 a b c d show ?thesis
    by (simp add: e f)
qed

end
